theory Spec2Isabelle
  imports Complex_Main "HOL-Library.AList"
begin

section \<open>Python and pandas primitives\<close>

text \<open>
  The analysis engine is Python over pandas data frames. Python's unbounded integers are
  \<open>int\<close> (\<open>nat\<close> for counts, which pandas never makes negative), strings are
  \<open>string\<close>, and a \<open>dict\<close> is an association list in insertion order, since the code
  iterates dictionaries and the order of the results follows that iteration. Confidence
  values and durations are Python floats; they are modelled by exact rationals, so the
  rounding of IEEE arithmetic is not represented.
\<close>

datatype pyval = PInt int | PBool bool | PStr string | PIntList "int list"

definition digit_char :: "nat \<Rightarrow> char" where
  "digit_char d =
     (if d = 0 then CHR ''0'' else if d = 1 then CHR ''1'' else if d = 2 then CHR ''2''
      else if d = 3 then CHR ''3'' else if d = 4 then CHR ''4'' else if d = 5 then CHR ''5''
      else if d = 6 then CHR ''6'' else if d = 7 then CHR ''7'' else if d = 8 then CHR ''8''
      else CHR ''9'')"

text \<open>\<open>str(n)\<close> for a non-negative integer: its decimal digits.\<close>

fun str_nat :: "nat \<Rightarrow> string" where
  "str_nat n = (if n < 10 then [digit_char n] else str_nat (n div 10) @ [digit_char (n mod 10)])"

declare str_nat.simps [simp del]

text \<open>The distinct values of a column in the order in which they are first seen.\<close>

definition unique :: "'a list \<Rightarrow> 'a list" where
  "unique xs = fold (\<lambda>x acc. if x \<in> set acc then acc else acc @ [x]) xs []"

text \<open>\<open>Series.nunique()\<close>: the number of distinct values that are present.\<close>

definition nunique :: "'a list \<Rightarrow> nat" where
  "nunique xs = length (unique xs)"

text \<open>
  \<open>Series.value_counts()\<close>: every distinct present value with the number of its
  occurrences, by descending count; values of equal count keep the order in which they are
  first seen.
\<close>

definition value_counts :: "'a list \<Rightarrow> ('a \<times> nat) list" where
  "value_counts xs =
     sort_key (\<lambda>kc. - int (snd kc)) (map (\<lambda>k. (k, count_list xs k)) (unique xs))"

text \<open>
  \<open>max(items, key=lambda x: x[1], default=d)\<close>: the first item whose second component is
  maximal, the default on an empty dictionary.
\<close>

fun max_by_count :: "('k \<times> nat) list \<Rightarrow> ('k \<times> nat) \<Rightarrow> ('k \<times> nat)" where
  "max_by_count [] d = d"
| "max_by_count (x # xs) d = fold (\<lambda>y best. if snd best < snd y then y else best) xs x"

section \<open>Events and the feature set\<close>

text \<open>
  A log entry is a dictionary in which every key may be absent. The timestamp is a text
  that \<open>pd.to_datetime\<close> either parses to an instant (here: seconds on the time line) or
  rejects by raising; the field holds that outcome.
\<close>

datatype stamp = Instant rat | Unparsable string

datatype fault = DateParseError string

record event =
  src_ip :: "string option"
  dst_port :: "int option"
  protocol :: "string option"
  message :: "string option"
  timestamp :: "stamp option"

text \<open>A column exists in the data frame when some log entry has the key.\<close>

definition has_column :: "(event \<Rightarrow> 'a option) \<Rightarrow> event list \<Rightarrow> bool" where
  "has_column f logs = list_ex (\<lambda>e. f e \<noteq> None) logs"

text \<open>The present (non-missing) values of a column, in row order.\<close>

definition column :: "(event \<Rightarrow> 'a option) \<Rightarrow> event list \<Rightarrow> 'a list" where
  "column f logs = List.map_filter f logs"

text \<open>\<open>pd.to_datetime\<close> over a column: raises at the first text it cannot parse.\<close>

fun to_datetime :: "stamp list \<Rightarrow> fault + rat list" where
  "to_datetime [] = Inr []"
| "to_datetime (Unparsable s # ss) = Inl (DateParseError s)"
| "to_datetime (Instant t # ss) =
     (case to_datetime ss of Inl e \<Rightarrow> Inl e | Inr ts \<Rightarrow> Inr (t # ts))"

record time_range =
  tr_start :: rat
  tr_end :: rat
  duration_minutes :: rat

record pattern =
  is_known_malicious :: bool
  frequency :: nat
  ports_targeted :: nat

record features =
  total_events :: nat
  unique_ips :: nat
  unique_ports :: nat
  time_range :: "time_range option"
  ip_frequency :: "(string \<times> nat) list"
  port_frequency :: "(int \<times> nat) list"
  patterns :: "(string \<times> pattern) list"
  protocol_distribution :: "(string \<times> nat) list option"

text \<open>
  The time analysis of \<open>_extract_features\<close>: minimum, maximum and their distance in
  minutes. Missing timestamps are skipped by pandas, so only present ones are passed.
\<close>

definition time_analysis :: "stamp list \<Rightarrow> fault + time_range option" where
  "time_analysis ss =
     (case to_datetime ss of
        Inl e \<Rightarrow> Inl e
      | Inr [] \<Rightarrow> Inr None
      | Inr (t # ts) \<Rightarrow>
          (let lo = fold min ts t; hi = fold max ts t
           in Inr (Some \<lparr>tr_start = lo, tr_end = hi, duration_minutes = (hi - lo) / 60\<rparr>)))"

definition source_pattern :: "string set \<Rightarrow> event list \<Rightarrow> (string \<times> nat) \<Rightarrow> (string \<times> pattern)" where
  "source_pattern known logs ipc =
     (fst ipc,
      \<lparr>is_known_malicious = (fst ipc \<in> known),
       frequency = snd ipc,
       ports_targeted =
         (if has_column dst_port logs
          then nunique (column dst_port (filter (\<lambda>e. src_ip e = Some (fst ipc)) logs))
          else 0)\<rparr>)"

definition extract_features :: "string set \<Rightarrow> event list \<Rightarrow> fault + features" where
  "extract_features known logs =
     (let base = \<lparr>total_events = length logs,
                  unique_ips = (if has_column src_ip logs then nunique (column src_ip logs) else 0),
                  unique_ports = (if has_column dst_port logs then nunique (column dst_port logs) else 0),
                  time_range = None, ip_frequency = [], port_frequency = [], patterns = [],
                  protocol_distribution = None\<rparr>
      in if length logs = 0 then Inr base
         else
           (case (if has_column timestamp logs then time_analysis (column timestamp logs)
                  else Inr None) of
              Inl e \<Rightarrow> Inl e
            | Inr tr \<Rightarrow>
                (let ipf = (if has_column src_ip logs
                            then take 10 (value_counts (column src_ip logs)) else [])
                 in Inr (base\<lparr>time_range := tr,
                          ip_frequency := ipf,
                          patterns := map (source_pattern known logs) ipf,
                          port_frequency :=
                            (if has_column dst_port logs
                             then take 10 (value_counts (column dst_port logs)) else []),
                          protocol_distribution :=
                            (if has_column protocol logs
                             then Some (value_counts (column protocol logs)) else None)\<rparr>))))"

section \<open>The analyzer\<close>

text \<open>
  \<open>HoneypotAIAnalyzer\<close> keeps the known-malicious addresses and the reputation scores
  between calls. Its third dictionary, \<open>attack_patterns\<close>, is written by
  \<open>_update_models\<close> only (inside its own \<open>try\<close>) and read nowhere, so it is not part of
  the state here. The items of a report carry an \<open>id\<close> and a \<open>timestamp\<close> formatted from
  MD5 digests and further readings of the wall clock; these two fields are not represented.
\<close>

record analyzer =
  known_malicious_ips :: "string set"
  reputation_scores :: "string \<rightharpoonup> int"

definition initial_analyzer :: analyzer where
  "initial_analyzer =
     \<lparr>known_malicious_ips = {''192.168.1.100'', ''10.0.0.50'', ''172.16.0.10''},
      reputation_scores = Map.empty\<rparr>"

subsection \<open>Attack classification on the feature set\<close>

record attack =
  a_type :: string
  a_severity :: string
  a_source_ip :: string
  a_confidence :: rat
  a_description :: string
  a_indicators :: "(string \<times> pyval) list"

definition brute_force_attack :: "string \<Rightarrow> pattern \<Rightarrow> attack" where
  "brute_force_attack ip data =
     \<lparr>a_type = ''brute_force'',
      a_severity = (if frequency data > 50 then ''high'' else ''medium''),
      a_source_ip = ip,
      a_confidence = min (9 / 10) (of_nat (frequency data) / 100),
      a_description = ''Brute force attack detected from '' @ ip @ '' (''
                        @ str_nat (frequency data) @ '' attempts)'',
      a_indicators = [(''attempt_count'', PInt (int (frequency data))),
                      (''ports_targeted'', PInt (int (ports_targeted data))),
                      (''known_malicious'', PBool (is_known_malicious data))]\<rparr>"

definition port_scan_attack :: "string \<Rightarrow> pattern \<Rightarrow> attack" where
  "port_scan_attack ip data =
     \<lparr>a_type = ''port_scan'',
      a_severity = ''medium'',
      a_source_ip = ip,
      a_confidence = min (95 / 100) (of_nat (ports_targeted data) / 20),
      a_description = ''Port scanning detected from '' @ ip @ '' (''
                        @ str_nat (ports_targeted data) @ '' ports)'',
      a_indicators = [(''ports_scanned'', PInt (int (ports_targeted data))),
                      (''scan_frequency'', PInt (int (frequency data)))]\<rparr>"

text \<open>
  \<open>_classify_attacks\<close>: one loop over the pattern table for brute force, one that collects
  the port scanners into a dictionary, and one over that dictionary.
\<close>

definition classify_attacks :: "features \<Rightarrow> attack list" where
  "classify_attacks f =
     (let attacks = fold (\<lambda>(ip, data) acc.
                            if frequency data > 10 then acc @ [brute_force_attack ip data] else acc)
                      (patterns f) [];
          port_scanners = fold (\<lambda>(ip, data) d.
                                  if ports_targeted data > 5 then AList.update ip data d else d)
                            (patterns f) []
      in fold (\<lambda>(ip, data) acc. acc @ [port_scan_attack ip data]) port_scanners attacks)"

subsection \<open>Anomalies\<close>

text \<open>
  The description of an anomaly prints floats and pandas index values; it is left out.
  \<open>an_ip\<close> and \<open>an_indicators\<close> are the keys that only some anomalies have.
\<close>

record anomaly =
  an_type :: string
  an_severity :: string
  an_confidence :: rat
  an_ip :: "string option"
  an_indicators :: "(string \<times> pyval) list option"

definition detect_anomalies :: "features \<Rightarrow> anomaly list" where
  "detect_anomalies f =
     (let anomalies =
            (case time_range f of
               None \<Rightarrow> []
             | Some tr \<Rightarrow>
                 if duration_minutes tr < 1 \<and> total_events f > 100
                 then [\<lparr>an_type = ''temporal_anomaly'', an_severity = ''medium'',
                        an_confidence = 8 / 10, an_ip = None, an_indicators = None\<rparr>]
                 else []);
          top_ports = map fst (port_frequency f);
          unusual_ports = filter (\<lambda>p. p \<notin> set [22, 80, 443, 21, 25, 53, 3389]) top_ports
      in if length unusual_ports > 3
         then anomalies @ [\<lparr>an_type = ''unusual_ports'', an_severity = ''low'',
                             an_confidence = 6 / 10, an_ip = None,
                             an_indicators = Some [(''unusual_ports'', PIntList unusual_ports)]\<rparr>]
         else anomalies)"

subsection \<open>Threats\<close>

record threat =
  t_severity :: string
  t_type :: string
  t_source :: string
  t_description :: string
  t_attack_types :: "string list option"
  t_business_impact :: string
  t_recommended_actions :: "string list"

definition assess_business_impact :: "attack \<Rightarrow> string" where
  "assess_business_impact attack =
     (case map_of
        [(''brute_force'', ''Medium - Potential service disruption and credential compromise''),
         (''port_scan'', ''Low - Reconnaissance activity, may precede actual attack''),
         (''web_attack'', ''High - Direct threat to web services and data''),
         (''malware'', ''Critical - System compromise and data breach risk'')]
        (a_type attack) of
        Some impact \<Rightarrow> impact
      | None \<Rightarrow> ''Unknown impact'')"

definition get_recommended_actions :: "attack \<Rightarrow> string list" where
  "get_recommended_actions attack =
     (case map_of
        [(''brute_force'',
            [''Change default passwords immediately'', ''Enable account lockout policies'',
             ''Consider IP blocking'', ''Review access logs'']),
         (''port_scan'',
            [''Close unnecessary open ports'', ''Enable firewall logging'',
             ''Monitor for follow-up attacks'', ''Review network segmentation'']),
         (''web_attack'',
            [''Update web application'', ''Enable WAF protection'',
             ''Review application logs'', ''Patch known vulnerabilities''])]
        (a_type attack) of
        Some actions \<Rightarrow> actions
      | None \<Rightarrow> [''Review security policies'', ''Monitor closely''])"

definition immediate_threat :: "attack \<Rightarrow> threat" where
  "immediate_threat attack =
     \<lparr>t_severity = ''critical'',
      t_type = ''immediate_threat'',
      t_source = a_source_ip attack,
      t_description = ''Critical '' @ a_type attack @ '' attack requires immediate attention'',
      t_attack_types = None,
      t_business_impact = assess_business_impact attack,
      t_recommended_actions = get_recommended_actions attack\<rparr>"

definition persistent_threat :: "string \<Rightarrow> attack list \<Rightarrow> threat" where
  "persistent_threat ip ip_attack_list =
     \<lparr>t_severity = ''high'',
      t_type = ''persistent_threat'',
      t_source = ip,
      t_description = ''Persistent attacker using multiple techniques (''
                        @ str_nat (length ip_attack_list) @ '' attack types)'',
      t_attack_types = Some (map a_type ip_attack_list),
      t_business_impact = ''High - Targeted attack likely'',
      t_recommended_actions =
        [''Block IP immediately'', ''Review security policies'', ''Monitor related IPs'']\<rparr>"

text \<open>The grouping loop of \<open>_analyze_threats\<close>: one step per attack.\<close>

definition group_attack :: "attack \<Rightarrow> (string \<times> attack list) list \<Rightarrow> (string \<times> attack list) list" where
  "group_attack attack ip_attacks =
     (let ip = a_source_ip attack;
          d = (if ip \<notin> set (map fst ip_attacks) then AList.update ip [] ip_attacks
               else ip_attacks)
      in case map_of d ip of
           Some l \<Rightarrow> AList.update ip (l @ [attack]) d
         | None \<Rightarrow> d)"

definition analyze_threats :: "attack list \<Rightarrow> anomaly list \<Rightarrow> threat list" where
  "analyze_threats attacks anomalies =
     (let critical_attacks = filter (\<lambda>a. a_severity a = ''high'') attacks;
          threats = fold (\<lambda>attack acc. acc @ [immediate_threat attack]) critical_attacks [];
          ip_attacks = fold group_attack attacks []
      in fold (\<lambda>(ip, ip_attack_list) acc.
                 if length ip_attack_list > 1 then acc @ [persistent_threat ip ip_attack_list]
                 else acc)
           ip_attacks threats)"

subsection \<open>Port prioritisation\<close>

text \<open>\<open>HoneypotAIAnalyzer._identify_high_value_ports\<close>.\<close>

definition identify_high_value_ports :: "features \<Rightarrow> int list" where
  "identify_high_value_ports f =
     (let port_freq = port_frequency f;
          critical_ports = [22, 21, 80, 443, 3389, 25, 53, 135, 139, 445];
          high_value_ports =
            fold (\<lambda>port acc.
                    if (case map_of port_freq port of Some c \<Rightarrow> c > 5 | None \<Rightarrow> False)
                    then acc @ [port] else acc)
              critical_ports [];
          high_value_ports =
            fold (\<lambda>(port, count) acc.
                    if count > 10 \<and> port \<notin> set acc then acc @ [port] else acc)
              port_freq high_value_ports
      in take 10 high_value_ports)"

text \<open>\<open>AdaptationEngine._identify_high_value_ports\<close>, the copy in the adaptation engine.\<close>

definition adaptation_identify_high_value_ports :: "features \<Rightarrow> int list" where
  "adaptation_identify_high_value_ports f =
     (let port_freq = port_frequency f;
          critical_ports = [22, 21, 80, 443, 3389];
          high_value_ports =
            fold (\<lambda>port acc.
                    if (case map_of port_freq port of Some c \<Rightarrow> c > 5 | None \<Rightarrow> False)
                    then acc @ [port] else acc)
              critical_ports [];
          high_value_ports =
            fold (\<lambda>(port, count) acc.
                    if count > 10 \<and> port \<notin> set acc then acc @ [port] else acc)
              port_freq high_value_ports
      in take 10 high_value_ports)"

subsection \<open>Recommendations\<close>

datatype rec_parameters =
    SpawnParameters (ports: "int list") (services: "string list") (count: nat)
  | BlockParameters (ips: "string list") (duration: string) (scope: string)
  | MonitorParameters (focus_ports: "int list") (alert_threshold: nat)

record recommendation =
  rc_type :: string
  rc_priority :: string
  rc_action :: string
  rc_description :: string
  rc_parameters :: rec_parameters
  rc_business_justification :: string

definition adapt_recommendation :: "int list \<Rightarrow> recommendation" where
  "adapt_recommendation high_value_ports =
     \<lparr>rc_type = ''adapt'', rc_priority = ''high'', rc_action = ''spawn_honeypots'',
      rc_description = ''Deploy additional honeypots on targeted ports'',
      rc_parameters = SpawnParameters high_value_ports [''ssh'', ''web'', ''ftp'']
                        (min 5 (length high_value_ports)),
      rc_business_justification =
        ''Increase attack visibility and threat intelligence gathering''\<rparr>"

definition block_recommendation :: "string list \<Rightarrow> recommendation" where
  "block_recommendation frequent_attackers =
     \<lparr>rc_type = ''security_policy'', rc_priority = ''critical'', rc_action = ''block_ips'',
      rc_description = ''Block persistent attackers at firewall level'',
      rc_parameters = BlockParameters frequent_attackers ''permanent'' ''all_services'',
      rc_business_justification =
        ''Prevent resource exhaustion and reduce attack surface''\<rparr>"

definition monitor_recommendation :: "features \<Rightarrow> recommendation" where
  "monitor_recommendation f =
     \<lparr>rc_type = ''monitoring'', rc_priority = ''medium'', rc_action = ''enhance_monitoring'',
      rc_description = ''Increase monitoring on frequently targeted ports'',
      rc_parameters = MonitorParameters (take 5 (map fst (port_frequency f))) 10,
      rc_business_justification = ''Early warning system for targeted attacks''\<rparr>"

definition generate_recommendations :: "threat list \<Rightarrow> features \<Rightarrow> recommendation list" where
  "generate_recommendations threats f =
     (let recommendations =
            (if length threats > 0
             then [adapt_recommendation (identify_high_value_ports f)] else []);
          frequent_attackers = map fst (filter (\<lambda>(ip, count). count > 20) (ip_frequency f));
          recommendations =
            (if frequent_attackers \<noteq> []
             then recommendations @ [block_recommendation frequent_attackers]
             else recommendations)
      in if unique_ports f > 10 then recommendations @ [monitor_recommendation f]
         else recommendations)"

subsection \<open>Statistics\<close>

text \<open>
  \<open>st_top_attacker\<close> and \<open>st_most_targeted_port\<close> are keys that the empty response does
  not have.
\<close>

record statistics =
  st_total_events :: nat
  st_unique_attackers :: nat
  st_ports_targeted :: nat
  st_top_attacker :: "(string \<times> nat) option"
  st_most_targeted_port :: "(pyval \<times> nat) option"
  st_attack_intensity :: string
  st_threat_level :: string

definition calculate_attack_intensity :: "features \<Rightarrow> string" where
  "calculate_attack_intensity f =
     (case time_range f of
        None \<Rightarrow> ''Unknown''
      | Some tr \<Rightarrow>
          if duration_minutes tr = 0 then ''Unknown''
          else (let events_per_minute = of_nat (total_events f) / duration_minutes tr
                in if events_per_minute > 50 then ''Critical''
                   else if events_per_minute > 20 then ''High''
                   else if events_per_minute > 5 then ''Medium''
                   else ''Low''))"

definition calculate_threat_level :: "analyzer \<Rightarrow> features \<Rightarrow> string" where
  "calculate_threat_level st f =
     (let score = min (of_nat (unique_ips f * 2)) (20 :: rat);
          score = score + min (of_nat (unique_ports f) * (3 / 2)) 15;
          malicious_count =
            length (filter (\<lambda>ip. ip \<in> known_malicious_ips st) (map fst (ip_frequency f)));
          score = score + of_nat (malicious_count * 10);
          max_freq = fold max (map snd (ip_frequency f)) 0;
          score = score + min (of_nat max_freq / 10) 25
      in if score > 60 then ''Critical''
         else if score > 40 then ''High''
         else if score > 20 then ''Medium''
         else ''Low'')"

definition generate_statistics :: "analyzer \<Rightarrow> features \<Rightarrow> statistics" where
  "generate_statistics st f =
     \<lparr>st_total_events = total_events f,
      st_unique_attackers = unique_ips f,
      st_ports_targeted = unique_ports f,
      st_top_attacker = Some (max_by_count (ip_frequency f) (''None'', 0)),
      st_most_targeted_port =
        Some (max_by_count (map (\<lambda>(p, c). (PInt p, c)) (port_frequency f)) (PStr ''None'', 0)),
      st_attack_intensity = calculate_attack_intensity f,
      st_threat_level = calculate_threat_level st f\<rparr>"

subsection \<open>Reputation\<close>

record reputation_update =
  old_score :: int
  new_score :: int
  change :: int
  reason :: string

text \<open>One iteration of the loop of \<open>_get_reputation_updates\<close>.\<close>

definition reputation_step ::
  "string set \<Rightarrow> (string \<times> nat) \<Rightarrow> (string \<times> reputation_update) list \<times> (string \<rightharpoonup> int)
     \<Rightarrow> (string \<times> reputation_update) list \<times> (string \<rightharpoonup> int)" where
  "reputation_step known ipf acc =
     (let ip = fst ipf; frequency = int (snd ipf);
          updates = fst acc; scores = snd acc;
          current_score = (case scores ip of Some s \<Rightarrow> s | None \<Rightarrow> 50);
          penalty = min (frequency * 2) 40;
          new_score = max 0 (current_score - penalty);
          new_score = (if ip \<in> known then max 0 (new_score - 20) else new_score)
      in (AList.update ip
            \<lparr>old_score = current_score, new_score = new_score,
             change = new_score - current_score,
             reason = ''Attack frequency: '' @ str_nat (snd ipf)\<rparr> updates,
          scores(ip \<mapsto> new_score)))"

definition get_reputation_updates ::
  "analyzer \<Rightarrow> features \<Rightarrow> (string \<times> reputation_update) list \<times> analyzer" where
  "get_reputation_updates st f =
     (let r = fold (reputation_step (known_malicious_ips st)) (ip_frequency f)
                ([], reputation_scores st)
      in (fst r, st\<lparr>reputation_scores := snd r\<rparr>))"

subsection \<open>The report\<close>

text \<open>
  A report is a dictionary; the keys \<open>error\<close>, \<open>statistics\<close> and \<open>reputation_updates\<close>
  are present in some reports only, so their fields are optional. The error text is
  \<open>str(e)\<close> of the exception; the field holds the fault itself.
\<close>

record report =
  r_error :: "fault option"
  r_timestamp :: string
  r_attacks :: "attack list"
  r_anomalies :: "anomaly list"
  r_threats :: "threat list"
  r_recommendations :: "recommendation list"
  r_statistics :: "statistics option"
  r_reputation_updates :: "(string \<times> reputation_update) list option"

definition empty_response :: "string \<Rightarrow> report" where
  "empty_response now =
     \<lparr>r_error = None, r_timestamp = now,
      r_attacks = [], r_anomalies = [], r_threats = [], r_recommendations = [],
      r_statistics =
        Some \<lparr>st_total_events = 0, st_unique_attackers = 0, st_ports_targeted = 0,
              st_top_attacker = None, st_most_targeted_port = None,
              st_attack_intensity = ''None'', st_threat_level = ''Low''\<rparr>,
      r_reputation_updates = Some []\<rparr>"

text \<open>The dictionary built by the \<open>except\<close> branch of \<open>analyze_logs\<close>.\<close>

definition error_response :: "string \<Rightarrow> fault \<Rightarrow> report" where
  "error_response now e =
     \<lparr>r_error = Some e, r_timestamp = now,
      r_attacks = [], r_anomalies = [], r_threats = [], r_recommendations = [],
      r_statistics = None, r_reputation_updates = None\<rparr>"

text \<open>
  \<open>analyze_logs\<close>. \<open>now\<close> is the reading of the wall clock, in ISO format. The only
  statement of the pass that can raise on well-typed log entries is the timestamp
  conversion in the feature extraction, which runs before anything is written to the
  analyzer; the \<open>except\<close> branch therefore returns the analyzer as it was.
\<close>

definition analyze_logs :: "string \<Rightarrow> analyzer \<Rightarrow> event list \<Rightarrow> report \<times> analyzer" where
  "analyze_logs now st logs =
     (if logs = [] then (empty_response now, st)
      else
        (case extract_features (known_malicious_ips st) logs of
           Inl e \<Rightarrow> (error_response now e, st)
         | Inr f \<Rightarrow>
             (let classified_attacks = classify_attacks f;
                  anomalies = detect_anomalies f;
                  threats = analyze_threats classified_attacks anomalies;
                  recommendations = generate_recommendations threats f;
                  stats = generate_statistics st f;
                  rep = get_reputation_updates st f
              in (\<lparr>r_error = None, r_timestamp = now,
                   r_attacks = classified_attacks, r_anomalies = anomalies,
                   r_threats = threats, r_recommendations = recommendations,
                   r_statistics = Some stats,
                   r_reputation_updates = Some (fst rep)\<rparr>,
                  snd rep))))"

section \<open>The anomaly detector\<close>

text \<open>
  \<open>AnomalyDetector.detect\<close> works on the data frame of the log entries. It has no
  \<open>try\<close>: a timestamp that cannot be parsed raises out of it.
\<close>

definition df_empty :: "event list \<Rightarrow> bool" where
  "df_empty logs =
     (length logs = 0 \<or>
      \<not> (has_column src_ip logs \<or> has_column dst_port logs \<or> has_column protocol logs
         \<or> has_column message logs \<or> has_column timestamp logs))"

definition temporal_burst :: "event list \<Rightarrow> fault + anomaly list" where
  "temporal_burst logs =
     (if has_column timestamp logs
      then (case to_datetime (column timestamp logs) of
              Inl e \<Rightarrow> Inl e
            | Inr [] \<Rightarrow> Inr []
            | Inr (t # ts) \<Rightarrow>
                (let time_window = fold max ts t - fold min ts t
                 in if time_window < 60 \<and> length logs > 100
                    then Inr [\<lparr>an_type = ''Temporal Burst'', an_severity = ''medium'',
                               an_confidence = 8 / 10, an_ip = None, an_indicators = None\<rparr>]
                    else Inr []))
      else Inr [])"

definition unusual_port_targeting :: "event list \<Rightarrow> anomaly list" where
  "unusual_port_targeting logs =
     (if has_column dst_port logs
      then (let common_ports = [22, 80, 443, 3389, 21, 25, 53];
                targeted_ports = value_counts (column dst_port logs);
                unusual_ports = filter (\<lambda>pc. fst pc \<notin> set common_ports) targeted_ports
            in if length unusual_ports > 5
               then [\<lparr>an_type = ''Unusual Port Targeting'', an_severity = ''low'',
                      an_confidence = 6 / 10, an_ip = None, an_indicators = None\<rparr>]
               else [])
      else [])"

definition ip_frequency_spikes :: "event list \<Rightarrow> anomaly list" where
  "ip_frequency_spikes logs =
     (if has_column src_ip logs
      then fold (\<lambda>(ip, count) acc.
                   if count > 50
                   then acc @ [\<lparr>an_type = ''IP Frequency Spike'',
                                 an_severity = (if count > 100 then ''high'' else ''medium''),
                                 an_confidence = min (95 / 100) (of_nat count / 150),
                                 an_ip = Some ip, an_indicators = None\<rparr>]
                   else acc)
             (value_counts (column src_ip logs)) []
      else [])"

definition detect :: "event list \<Rightarrow> fault + anomaly list" where
  "detect logs =
     (if df_empty logs then Inr []
      else (case temporal_burst logs of
              Inl e \<Rightarrow> Inl e
            | Inr anomalies \<Rightarrow>
                Inr (anomalies @ unusual_port_targeting logs @ ip_frequency_spikes logs)))"

section \<open>The attack classifier\<close>

subsection \<open>Regular expressions of the signature table\<close>

text \<open>
  Every pattern of the signature table is a sequence of literal texts separated by \<open>.*\<close>
  (escaped characters such as \<open>\.\<close> and \<open>\(\<close> stand for themselves), so a pattern is a list
  of such pieces. Matching is \<open>re.search\<close> with \<open>re.IGNORECASE\<close>: the pattern may start
  anywhere, letters match in either case, and \<open>.\<close> matches every character but the line
  feed. Case is folded for the ASCII letters.
\<close>

datatype rx = Lit string | AnyStar

definition lower_char :: "char \<Rightarrow> char" where
  "lower_char c =
     (case map_of (zip ''ABCDEFGHIJKLMNOPQRSTUVWXYZ'' ''abcdefghijklmnopqrstuvwxyz'') c of
        Some l \<Rightarrow> l
      | None \<Rightarrow> c)"

text \<open>\<open>str.lower()\<close>.\<close>

definition lower :: "string \<Rightarrow> string" where
  "lower s = map lower_char s"

text \<open>The rest of the text after a literal that matches at its start, if it does.\<close>

fun match_lit :: "string \<Rightarrow> string \<Rightarrow> string option" where
  "match_lit [] s = Some s"
| "match_lit (c # cs) [] = None"
| "match_lit (c # cs) (x # xs) =
     (if lower_char c = lower_char x then match_lit cs xs else None)"

text \<open>The positions that \<open>.*\<close> can reach: the suffixes of the text up to the next line feed.\<close>

fun line_suffixes :: "string \<Rightarrow> string list" where
  "line_suffixes [] = [[]]"
| "line_suffixes (x # xs) = (x # xs) # (if x = CHR 0x0A then [] else line_suffixes xs)"

fun tails :: "'a list \<Rightarrow> 'a list list" where
  "tails [] = [[]]"
| "tails (x # xs) = (x # xs) # tails xs"

fun match_here :: "rx list \<Rightarrow> string \<Rightarrow> bool" where
  "match_here [] s = True"
| "match_here (Lit l # p) s =
     (case match_lit l s of None \<Rightarrow> False | Some rest \<Rightarrow> match_here p rest)"
| "match_here (AnyStar # p) s = list_ex (match_here p) (line_suffixes s)"

definition re_search :: "rx list \<Rightarrow> string \<Rightarrow> bool" where
  "re_search p s = list_ex (match_here p) (tails s)"

text \<open>\<open>sub in s\<close> on strings.\<close>

definition contains :: "string \<Rightarrow> string \<Rightarrow> bool" where
  "contains sub s = list_ex (\<lambda>t. take (length sub) t = sub) (tails s)"

subsection \<open>Signatures and results\<close>

text \<open>
  \<open>attack_signatures\<close> in the order in which \<open>__init__\<close> inserts the kinds. The
  \<open>indicators\<close> entry of each kind is read nowhere and is left out.
\<close>

definition attack_signatures :: "(string \<times> rx list list) list" where
  "attack_signatures =
     [(''brute_force'',
         [[Lit ''Failed password for'', AnyStar, Lit ''from'', AnyStar, Lit ''port''],
          [Lit ''authentication failure'', AnyStar, Lit ''rhost=''],
          [Lit ''Invalid user'', AnyStar, Lit ''from'', AnyStar],
          [Lit ''Failed login attempt'']]),
      (''port_scan'',
         [[Lit ''Connection attempt'', AnyStar, Lit ''refused''],
          [Lit ''SYN flood detected''],
          [Lit ''Port scan detected''],
          [Lit ''Multiple connection attempts'']]),
      (''web_attack'',
         [[Lit ''GET'', AnyStar, Lit ''../..''],
          [Lit ''SELECT'', AnyStar, Lit ''FROM'', AnyStar, Lit ''WHERE''],
          [Lit ''<script'', AnyStar, Lit ''>'', AnyStar, Lit ''</script>''],
          [Lit ''union'', AnyStar, Lit ''select''],
          [Lit ''eval(''],
          [Lit ''cmd='', AnyStar, Lit ''&'']]),
      (''ddos'',
         [[Lit ''SYN flood''],
          [Lit ''UDP flood''],
          [Lit ''Connection flood''],
          [Lit ''Rate limit exceeded'']]),
      (''malware'',
         [[Lit ''Known malware signature''],
          [Lit ''Suspicious file upload''],
          [Lit ''Backdoor detected''],
          [Lit ''Trojan activity'']])]"

text \<open>
  The classifier object: its signature table, which \<open>update_signatures\<close> may extend, and
  the flag set by \<open>initialize\<close>.
\<close>

record classifier =
  signatures :: "(string \<times> rx list list) list"
  is_trained :: bool

definition initial_classifier :: "bool \<Rightarrow> classifier" where
  "initial_classifier trained = \<lparr>signatures = attack_signatures, is_trained = trained\<rparr>"

text \<open>
  A classification result. The keys that one stage alone writes (\<open>probabilities\<close>,
  \<open>error\<close>) are not represented.
\<close>

record classification =
  c_attack_type :: string
  c_confidence :: rat
  c_method :: string
  c_matched_patterns :: "rx list list"
  c_indicators :: "(string \<times> pyval) list"

definition check_common_passwords :: "string \<Rightarrow> bool" where
  "check_common_passwords msg =
     list_ex (\<lambda>pwd. contains pwd (lower msg))
       [''password'', ''123456'', ''admin'', ''root'', ''guest'',
        ''user'', ''test'', ''default'', ''pass'', ''12345'']"

definition extract_indicators :: "event \<Rightarrow> string \<Rightarrow> (string \<times> pyval) list" where
  "extract_indicators log_entry attack_type =
     (let msg = lower (case message log_entry of Some m \<Rightarrow> m | None \<Rightarrow> [])
      in if attack_type = ''brute_force'' then
           [(''failed_login'', PBool (contains ''failed'' msg \<or> contains ''invalid'' msg)),
            (''multiple_attempts'', PBool True),
            (''common_passwords'', PBool (check_common_passwords msg)),
            (''username_enumeration'', PBool (contains ''user'' msg))]
         else if attack_type = ''port_scan'' then
           [(''connection_refused'', PBool (contains ''refused'' msg \<or> contains ''closed'' msg)),
            (''rapid_connections'', PBool True),
            (''port_range'', PInt (case dst_port log_entry of Some p \<Rightarrow> p | None \<Rightarrow> 0)),
            (''stealth_scan'', PBool (contains ''syn'' (lower msg)))]
         else if attack_type = ''web_attack'' then
           [(''sql_injection'',
               PBool (list_ex (\<lambda>w. contains w msg) [''select'', ''union'', ''where'', ''drop''])),
            (''xss_attempt'', PBool (contains ''<script'' msg \<or> contains ''javascript:'' msg)),
            (''path_traversal'', PBool (contains ''../'' msg)),
            (''command_injection'',
               PBool (list_ex (\<lambda>w. contains w msg) [''cmd='', ''exec'', ''system'']))]
         else if attack_type = ''ddos'' then
           [(''high_volume'', PBool True),
            (''multiple_sources'', PBool True),
            (''resource_exhaustion'', PBool (contains ''timeout'' msg \<or> contains ''limit'' msg))]
         else [])"

subsection \<open>The rule stage\<close>

text \<open>The \<open>if\<close>/\<open>elif\<close> chain that raises the confidence by the destination port.\<close>

definition port_boost :: "string \<Rightarrow> int \<Rightarrow> rat" where
  "port_boost attack_type port =
     (if attack_type = ''web_attack'' \<and> port \<in> set [80, 443, 8080] then 1 / 10
      else if attack_type = ''brute_force'' \<and> port \<in> set [22, 21, 3389] then 1 / 10
      else if attack_type = ''port_scan'' \<and> 1 \<le> port \<and> port < 1024 then 5 / 100
      else 0)"

text \<open>
  The message and the destination port as the rule stage reads them:
  \<open>log_entry.get('message', '').lower()\<close> and \<open>log_entry.get('dst_port', 0)\<close>.
\<close>

definition event_message :: "event \<Rightarrow> string" where
  "event_message log_entry = lower (case message log_entry of Some m \<Rightarrow> m | None \<Rightarrow> [])"

definition event_port :: "event \<Rightarrow> int" where
  "event_port log_entry = (case dst_port log_entry of Some p \<Rightarrow> p | None \<Rightarrow> 0)"

text \<open>
  The value of the local variable \<open>confidence\<close> at the end of one iteration of the loop
  over the kinds: it starts at 0 and is set when at least one pattern of the kind matches.
\<close>

definition kind_confidence :: "string \<Rightarrow> int \<Rightarrow> (string \<times> rx list list) \<Rightarrow> rat" where
  "kind_confidence msg port sig =
     (let attack_type = fst sig; pats = snd sig;
          patterns_matched = length (filter (\<lambda>p. re_search p msg) pats)
      in if patterns_matched > 0
         then (let confidence = min (9 / 10) (of_nat patterns_matched / of_nat (length pats) + 3 / 10);
                   confidence = confidence + port_boost attack_type port
               in min 1 confidence)
         else 0)"

text \<open>
  The body of the loop over the kinds: the state is the maximum confidence so far, the
  kind that reached it, and the patterns matched so far.
\<close>

definition rule_step ::
  "string \<Rightarrow> int \<Rightarrow> (string \<times> rx list list) \<Rightarrow> rat \<times> string \<times> rx list list
     \<Rightarrow> rat \<times> string \<times> rx list list" where
  "rule_step msg port sig acc =
     (let attack_type = fst sig; pats = snd sig;
          max_confidence = fst acc; detected_type = fst (snd acc);
          hits = filter (\<lambda>p. re_search p msg) pats;
          patterns_matched = length hits;
          matched_patterns = snd (snd acc) @ hits;
          confidence = kind_confidence msg port sig
      in if patterns_matched > 0
         then (if confidence > max_confidence
               then (confidence, attack_type, matched_patterns)
               else (max_confidence, detected_type, matched_patterns))
         else (max_confidence, detected_type, matched_patterns))"

definition rule_based_classification :: "classifier \<Rightarrow> event \<Rightarrow> classification" where
  "rule_based_classification clf log_entry =
     (let msg = event_message log_entry;
          port = event_port log_entry;
          r = fold (rule_step msg port) (signatures clf) (0, ''normal'', [])
      in \<lparr>c_attack_type = fst (snd r),
          c_confidence = fst r,
          c_method = ''rule_based'',
          c_matched_patterns = snd (snd r),
          c_indicators = extract_indicators log_entry (fst (snd r))\<rparr>)"

subsection \<open>The two stages together\<close>

text \<open>
  \<open>classify_attack\<close>. The statistical stage (\<open>_ml_classification\<close>, a random forest of
  scikit-learn that catches its own exceptions) is a parameter. The first component of the
  result lists the stages that were run, in order; the second is the dictionary returned.
  On well-typed log entries the rule stage does not raise, so the \<open>except\<close> branch of
  \<open>classify_attack\<close> is not reached.
\<close>

datatype stage = RuleStage | StatisticalStage

definition classify_attack ::
  "classifier \<Rightarrow> (event \<Rightarrow> classification) \<Rightarrow> event \<Rightarrow> stage list \<times> classification" where
  "classify_attack clf ml_classification log_entry =
     (let rule_result = rule_based_classification clf log_entry
      in if c_confidence rule_result > 7 / 10 then ([RuleStage], rule_result)
         else if is_trained clf
         then (let ml_result = ml_classification log_entry
               in ([RuleStage, StatisticalStage],
                   if c_confidence ml_result > c_confidence rule_result then ml_result
                   else rule_result))
         else ([RuleStage], rule_result))"

section \<open>Sample inputs\<close>

text \<open>A log entry with a brute-force signature, and a statistical stage that always answers.\<close>

definition login_event :: event where
  "login_event =
     \<lparr>src_ip = Some ''10.0.0.9'', dst_port = Some 22, protocol = None,
      message = Some ''Failed login attempt'', timestamp = None\<rparr>"

definition fixed_ml :: "event \<Rightarrow> classification" where
  "fixed_ml e =
     \<lparr>c_attack_type = ''port_scan'', c_confidence = 4 / 5, c_method = ''machine_learning'',
      c_matched_patterns = [], c_indicators = []\<rparr>"

text \<open>
  A feature set with a known-malicious source and ports on both sides of the thresholds, a
  feature set in which only the mail port is hit, and log entries with a timestamp that
  parses and one that does not.
\<close>

definition sample_features :: features where
  "sample_features =
     \<lparr>total_events = 91, unique_ips = 2, unique_ports = 5, time_range = None,
      ip_frequency = [(''10.0.0.50'', 88), (''10.0.0.7'', 3)],
      port_frequency = [(8080, 40), (22, 30), (9000, 11), (25, 7), (80, 3)],
      patterns = [(''10.0.0.50'', \<lparr>is_known_malicious = True, frequency = 88, ports_targeted = 5\<rparr>),
                  (''10.0.0.7'', \<lparr>is_known_malicious = False, frequency = 3, ports_targeted = 1\<rparr>)],
      protocol_distribution = None\<rparr>"

definition smtp_features :: features where
  "smtp_features =
     \<lparr>total_events = 6, unique_ips = 1, unique_ports = 1, time_range = None,
      ip_frequency = [(''10.0.0.7'', 6)],
      port_frequency = [(25, 6)],
      patterns = [(''10.0.0.7'', \<lparr>is_known_malicious = False, frequency = 6, ports_targeted = 1\<rparr>)],
      protocol_distribution = None\<rparr>"

definition bad_stamp_event :: event where
  "bad_stamp_event =
     \<lparr>src_ip = Some ''10.0.0.7'', dst_port = Some 22, protocol = Some ''tcp'',
      message = Some ''Connection attempt'', timestamp = Some (Unparsable ''yesterday'')\<rparr>"

definition plain_event :: event where
  "plain_event =
     \<lparr>src_ip = Some ''10.0.0.7'', dst_port = Some 22, protocol = Some ''tcp'',
      message = Some ''Connection attempt'', timestamp = Some (Instant 0)\<rparr>"





text \<open>
  Three classified attacks: a severe brute force and a port scan of one source, and a
  lesser brute force of another.
\<close>

definition sample_attacks :: "attack list" where
  "sample_attacks =
     [brute_force_attack ''10.0.0.8'' \<lparr>is_known_malicious = False, frequency = 60, ports_targeted = 6\<rparr>,
      brute_force_attack ''10.0.0.7'' \<lparr>is_known_malicious = False, frequency = 12, ports_targeted = 1\<rparr>,
      port_scan_attack ''10.0.0.8'' \<lparr>is_known_malicious = False, frequency = 60, ports_targeted = 6\<rparr>]"


section \<open>Facts about the pandas primitives\<close>

lemma unique_fold_set:
  "set (fold (\<lambda>x acc. if x \<in> set acc then acc else acc @ [x]) xs acc) = set acc \<union> set xs"
  by (induction xs arbitrary: acc) auto

lemma unique_fold_distinct:
  "distinct acc \<Longrightarrow> distinct (fold (\<lambda>x acc. if x \<in> set acc then acc else acc @ [x]) xs acc)"
  by (induction xs arbitrary: acc) auto

lemma set_unique [simp]: "set (unique xs) = set xs"
  by (simp add: unique_def unique_fold_set)

lemma distinct_unique [simp]: "distinct (unique xs)"
  by (simp add: unique_def unique_fold_distinct)

lemma unique_snoc:
  "unique (xs @ [x]) = (if x \<in> set xs then unique xs else unique xs @ [x])"
  using set_unique[of xs] by (simp add: unique_def del: set_unique)


lemma set_value_counts:
  "set (value_counts xs) = (\<lambda>k. (k, count_list xs k)) ` set xs"
  by (simp add: value_counts_def)

lemma keys_value_counts: "set (map fst (value_counts xs)) = set xs"
  by (force simp: set_value_counts)

lemma distinct_value_counts: "distinct (map fst (value_counts xs))"
proof -
  have "distinct (map (\<lambda>k. (k, count_list xs k)) (unique xs))"
    by (simp add: distinct_map inj_on_def)
  then have d: "distinct (value_counts xs)" by (simp add: value_counts_def)
  have "inj_on fst (set (value_counts xs))"
    by (auto simp: set_value_counts inj_on_def)
  with d show ?thesis by (simp add: distinct_map)
qed


lemma map_of_value_counts:
  "map_of (value_counts xs) k = (if k \<in> set xs then Some (count_list xs k) else None)"
proof (cases "k \<in> set xs")
  case True
  then have "(k, count_list xs k) \<in> set (value_counts xs)" by (simp add: set_value_counts)
  with distinct_value_counts[of xs] True show ?thesis by simp
next
  case False
  then have "k \<notin> fst ` set (value_counts xs)" using keys_value_counts[of xs] by simp
  then show ?thesis using False by (simp add: map_of_eq_None_iff)
qed



section \<open>Properties of the orchestrator\<close>

text \<open>
  Claim C8. For the empty batch \<open>analyze_logs\<close> returns a report whose attacks, anomalies,
  threats and recommendations are empty, whose statistics give the attack intensity
  \<open>None\<close> and the threat level \<open>Low\<close>, and which has no error key.
\<close>

theorem analyze_logs_empty_batch:
  "r_attacks (fst (analyze_logs now st [])) = []
     \<and> r_anomalies (fst (analyze_logs now st [])) = []
     \<and> r_threats (fst (analyze_logs now st [])) = []
     \<and> r_recommendations (fst (analyze_logs now st [])) = []
     \<and> map_option st_attack_intensity (r_statistics (fst (analyze_logs now st []))) = Some ''None''
     \<and> map_option st_threat_level (r_statistics (fst (analyze_logs now st []))) = Some ''Low''
     \<and> r_error (fst (analyze_logs now st [])) = None"
  by (simp add: analyze_logs_def empty_response_def)

text \<open>
  Claim C10. When a fault is caught during a pass (here: the feature extraction raises),
  the report of \<open>analyze_logs\<close> has the error key with that fault, the timestamp, and empty
  attacks, anomalies, threats and recommendations, and it has neither the statistics nor the
  reputation updates; a report without the error key always has both.
\<close>

theorem analyze_logs_error_report:
  "(logs \<noteq> [] \<and> extract_features (known_malicious_ips st) logs = Inl e
      \<longrightarrow> r_error (fst (analyze_logs now st logs)) = Some e)
   \<and> (r_error (fst (analyze_logs now st logs)) \<noteq> None
      \<longrightarrow> r_timestamp (fst (analyze_logs now st logs)) = now
        \<and> r_attacks (fst (analyze_logs now st logs)) = []
        \<and> r_anomalies (fst (analyze_logs now st logs)) = []
        \<and> r_threats (fst (analyze_logs now st logs)) = []
        \<and> r_recommendations (fst (analyze_logs now st logs)) = []
        \<and> r_statistics (fst (analyze_logs now st logs)) = None
        \<and> r_reputation_updates (fst (analyze_logs now st logs)) = None)
   \<and> (r_error (fst (analyze_logs now st logs)) = None
      \<longrightarrow> r_statistics (fst (analyze_logs now st logs)) \<noteq> None
        \<and> r_reputation_updates (fst (analyze_logs now st logs)) \<noteq> None)"
  by (cases "extract_features (known_malicious_ips st) logs")
     (simp_all add: analyze_logs_def empty_response_def error_response_def Let_def)

lemma bad_stamp_fault:
  "extract_features (known_malicious_ips initial_analyzer) [plain_event, bad_stamp_event]
     = Inl (DateParseError ''yesterday'')"
  by (simp add: extract_features_def has_column_def column_def List.map_filter_def
        time_analysis_def plain_event_def bad_stamp_event_def)

lemma plain_no_error:
  "r_error (fst (analyze_logs ''2024-05-01T12:00:00'' initial_analyzer [plain_event])) = None"
  by (simp add: analyze_logs_def extract_features_def has_column_def column_def List.map_filter_def
        time_analysis_def plain_event_def Let_def)

theorem analyze_logs_error_report_witness:
  "r_error (fst (analyze_logs ''2024-05-01T12:00:00'' initial_analyzer [plain_event, bad_stamp_event]))
      = Some (DateParseError ''yesterday'')
   \<and> r_statistics (fst (analyze_logs ''2024-05-01T12:00:00'' initial_analyzer [plain_event, bad_stamp_event])) = None
   \<and> r_reputation_updates (fst (analyze_logs ''2024-05-01T12:00:00'' initial_analyzer [plain_event, bad_stamp_event])) = None
   \<and> r_error (fst (analyze_logs ''2024-05-01T12:00:00'' initial_analyzer [plain_event])) = None
   \<and> r_statistics (fst (analyze_logs ''2024-05-01T12:00:00'' initial_analyzer [plain_event])) \<noteq> None
   \<and> r_reputation_updates (fst (analyze_logs ''2024-05-01T12:00:00'' initial_analyzer [plain_event])) \<noteq> None"
  using analyze_logs_error_report[of "[plain_event, bad_stamp_event]" initial_analyzer
          "DateParseError ''yesterday''" "''2024-05-01T12:00:00''"]
        analyze_logs_error_report[of "[plain_event]" initial_analyzer
          "DateParseError ''yesterday''" "''2024-05-01T12:00:00''"]
        bad_stamp_fault plain_no_error
  by simp

subsection \<open>Reputation\<close>

lemma reputation_step_scores:
  "snd (reputation_step known (ip, fr) (upd, sc)) ip' =
     (if ip' = ip then snd (reputation_step known (ip, fr) ([], sc)) ip else sc ip')"
  by (simp add: reputation_step_def Let_def)

lemma reputation_step_updates:
  "map_of (fst (reputation_step known (ip, fr) (upd, sc))) ip' =
     (if ip' = ip then map_of (fst (reputation_step known (ip, fr) ([], sc))) ip
      else map_of upd ip')"
  by (simp add: reputation_step_def Let_def update_conv')

lemma reputation_step_local:
  "sc1 ip = sc ip \<Longrightarrow>
   snd (reputation_step known (ip, fr) (u1, sc1)) ip = snd (reputation_step known (ip, fr) (u, sc)) ip
   \<and> map_of (fst (reputation_step known (ip, fr) (u1, sc1))) ip
       = map_of (fst (reputation_step known (ip, fr) (u, sc))) ip"
  by (simp add: reputation_step_def Let_def update_conv')

lemma fold_reputation_step:
  "distinct (map fst l) \<Longrightarrow>
   snd (fold (reputation_step known) l (upd, sc)) ip =
     (case map_of l ip of None \<Rightarrow> sc ip
      | Some fr \<Rightarrow> snd (reputation_step known (ip, fr) ([], sc)) ip)
   \<and> map_of (fst (fold (reputation_step known) l (upd, sc))) ip =
     (case map_of l ip of None \<Rightarrow> map_of upd ip
      | Some fr \<Rightarrow> map_of (fst (reputation_step known (ip, fr) ([], sc))) ip)"
proof (induction l arbitrary: upd sc)
  case Nil
  then show ?case by simp
next
  case (Cons x l)
  obtain k v where x: "x = (k, v)" by (cases x)
  obtain u1 s1 where st: "reputation_step known (k, v) (upd, sc) = (u1, s1)"
    by (cases "reputation_step known (k, v) (upd, sc)")
  from Cons.prems x have d: "distinct (map fst l)" and nk: "map_of l k = None"
    by (auto simp: map_of_eq_None_iff)
  have s1: "s1 ip = (if ip = k then snd (reputation_step known (k, v) ([], sc)) k else sc ip)"
    using reputation_step_scores[of known k v upd sc ip] st by simp
  have u1: "map_of u1 ip = (if ip = k then map_of (fst (reputation_step known (k, v) ([], sc))) k
                            else map_of upd ip)"
    using reputation_step_updates[of known k v upd sc ip] st by simp
  have fold_eq: "fold (reputation_step known) (x # l) (upd, sc) = fold (reputation_step known) l (u1, s1)"
    by (simp add: x st)
  note IH = Cons.IH[OF d, of u1 s1]
  show ?case
  proof (cases "ip = k")
    case True
    then show ?thesis unfolding fold_eq using IH nk s1 u1 x by simp
  next
    case False
    have "s1 ip = sc ip" using s1 False by simp
    have e: "s1 ip = sc ip" using s1 False by simp
    have loc: "\<And>fr. snd (reputation_step known (ip, fr) ([], s1)) ip = snd (reputation_step known (ip, fr) ([], sc)) ip"
       "\<And>fr. map_of (fst (reputation_step known (ip, fr) ([], s1))) ip = map_of (fst (reputation_step known (ip, fr) ([], sc))) ip"
      using reputation_step_local[where ?sc1.0=s1 and sc=sc and ip=ip and known=known and ?u1.0="[]" and u="[]", OF e]
      by auto
    show ?thesis unfolding fold_eq using IH False s1 u1 x loc
      by (simp split: option.splits)
  qed
qed

text \<open>
  Claim C6. In every pass and for every source of the frequency table, the update reads
  the old score (50 for a source not seen before), computes
  \<open>max 0 (old - min (2 * frequency) 40)\<close>, subtracts a further 20, again not below 0, for a
  known-malicious source, and stores the result; with all stored scores in \<open>[0, 100]\<close>
  before the pass, every new score is in \<open>[0, 100]\<close>, whatever the frequency, and so is
  every stored score after the pass.
\<close>

theorem reputation_bounds:
  assumes inv: "\<forall>ip v. reputation_scores st ip = Some v \<longrightarrow> 0 \<le> v \<and> v \<le> 100"
    and dist: "distinct (map fst (ip_frequency f))"
    and res: "get_reputation_updates st f = (updates, st')"
  shows "(\<forall>(ip, freq) \<in> set (ip_frequency f).
            \<exists>u. map_of updates ip = Some u
              \<and> old_score u = (case reputation_scores st ip of Some s \<Rightarrow> s | None \<Rightarrow> 50)
              \<and> new_score u =
                  (if ip \<in> known_malicious_ips st
                   then max 0 (max 0 (old_score u - min (int freq * 2) 40) - 20)
                   else max 0 (old_score u - min (int freq * 2) 40))
              \<and> 0 \<le> new_score u \<and> new_score u \<le> 100
              \<and> reputation_scores st' ip = Some (new_score u))
       \<and> (\<forall>ip v. reputation_scores st' ip = Some v \<longrightarrow> 0 \<le> v \<and> v \<le> 100)"
proof -
  let ?r = "fold (reputation_step (known_malicious_ips st)) (ip_frequency f) ([], reputation_scores st)"
  from res have upd: "updates = fst ?r" and st': "reputation_scores st' = snd ?r"
    by (auto simp: get_reputation_updates_def Let_def)
  note F = fold_reputation_step[OF dist, of "known_malicious_ips st" "[]" "reputation_scores st"]
  have old: "\<And>ip. 0 \<le> (case reputation_scores st ip of Some s \<Rightarrow> s | None \<Rightarrow> 50)
                \<and> (case reputation_scores st ip of Some s \<Rightarrow> s | None \<Rightarrow> 50) \<le> 100"
    using inv by (auto split: option.splits)
  have rng: "\<And>(c::int) (fr::nat) b. 0 \<le> c \<Longrightarrow> c \<le> 100 \<Longrightarrow>
      0 \<le> (if b then max 0 (max 0 (c - min (int fr * 2) 40) - 20) else max 0 (c - min (int fr * 2) 40))
      \<and> (if b then max 0 (max 0 (c - min (int fr * 2) 40) - 20) else max 0 (c - min (int fr * 2) 40)) \<le> 100"
    by (auto simp: max_def min_def)
  have A: "\<forall>(ip, freq) \<in> set (ip_frequency f).
            \<exists>u. map_of updates ip = Some u
              \<and> old_score u = (case reputation_scores st ip of Some s \<Rightarrow> s | None \<Rightarrow> 50)
              \<and> new_score u =
                  (if ip \<in> known_malicious_ips st
                   then max 0 (max 0 (old_score u - min (int freq * 2) 40) - 20)
                   else max 0 (old_score u - min (int freq * 2) 40))
              \<and> 0 \<le> new_score u \<and> new_score u \<le> 100
              \<and> reputation_scores st' ip = Some (new_score u)"
  proof (clarify)
    fix ip freq assume mem: "(ip, freq) \<in> set (ip_frequency f)"
    with dist have m: "map_of (ip_frequency f) ip = Some freq" by simp
    let ?c = "case reputation_scores st ip of Some s \<Rightarrow> s | None \<Rightarrow> 50"
    let ?n = "if ip \<in> known_malicious_ips st
              then max 0 (max 0 (?c - min (int freq * 2) 40) - 20)
              else max 0 (?c - min (int freq * 2) 40)"
    have sc: "snd ?r ip = Some ?n"
      using F[of ip] m by (simp add: reputation_step_def Let_def)
    have up: "\<exists>u. map_of (fst ?r) ip = Some u \<and> old_score u = ?c \<and> new_score u = ?n"
      using F[of ip] m by (simp add: reputation_step_def Let_def)
    from rng[OF old[of ip, THEN conjunct1] old[of ip, THEN conjunct2], of "ip \<in> known_malicious_ips st" freq]
    have bd: "0 \<le> ?n \<and> ?n \<le> 100" .
    from up obtain u where u: "map_of (fst ?r) ip = Some u" "old_score u = ?c" "new_score u = ?n"
      by blast
    show "\<exists>u. map_of updates ip = Some u
              \<and> old_score u = (case reputation_scores st ip of Some s \<Rightarrow> s | None \<Rightarrow> 50)
              \<and> new_score u =
                  (if ip \<in> known_malicious_ips st
                   then max 0 (max 0 (old_score u - min (int freq * 2) 40) - 20)
                   else max 0 (old_score u - min (int freq * 2) 40))
              \<and> 0 \<le> new_score u \<and> new_score u \<le> 100
              \<and> reputation_scores st' ip = Some (new_score u)"
      apply (rule exI[of _ u])
      using u sc bd unfolding upd st' by simp
  qed
  have B: "\<forall>ip v. reputation_scores st' ip = Some v \<longrightarrow> 0 \<le> v \<and> v \<le> 100"
  proof (intro allI impI)
    fix ip v assume h: "reputation_scores st' ip = Some v"
    show "0 \<le> v \<and> v \<le> 100"
    proof (cases "map_of (ip_frequency f) ip")
      case None
      then show ?thesis using F[of ip] h inv unfolding st' by simp
    next
      case (Some fr)
      let ?c = "case reputation_scores st ip of Some s \<Rightarrow> s | None \<Rightarrow> 50"
      have "snd ?r ip = Some (if ip \<in> known_malicious_ips st
              then max 0 (max 0 (?c - min (int fr * 2) 40) - 20)
              else max 0 (?c - min (int fr * 2) 40))"
        using F[of ip] Some by (simp add: reputation_step_def Let_def)
      with h rng[OF old[of ip, THEN conjunct1] old[of ip, THEN conjunct2], of "ip \<in> known_malicious_ips st" fr]
      show ?thesis unfolding st' by simp
    qed
  qed
  from A B show ?thesis by blast
qed

theorem reputation_bounds_witness:
  "reputation_scores initial_analyzer = Map.empty
   \<and> distinct (map fst (ip_frequency sample_features))
   \<and> map_option new_score (map_of (fst (get_reputation_updates initial_analyzer sample_features)) ''10.0.0.50'') = Some 0
   \<and> map_option new_score (map_of (fst (get_reputation_updates initial_analyzer sample_features)) ''10.0.0.7'') = Some 44
   \<and> reputation_scores (snd (get_reputation_updates initial_analyzer sample_features)) ''10.0.0.7'' = Some 44"
proof -
  have e: "reputation_scores initial_analyzer = Map.empty"
    by (simp add: initial_analyzer_def)
  have i: "\<forall>ip v. reputation_scores initial_analyzer ip = Some v \<longrightarrow> 0 \<le> v \<and> v \<le> 100"
    by (simp add: e)
  have d: "distinct (map fst (ip_frequency sample_features))"
    by (simp add: sample_features_def)
  have r: "get_reputation_updates initial_analyzer sample_features
             = (fst (get_reputation_updates initial_analyzer sample_features),
                snd (get_reputation_updates initial_analyzer sample_features))" by simp
  note T = reputation_bounds[OF i d r]
  have m: "(''10.0.0.50'', 88) \<in> set (ip_frequency sample_features)"
          "(''10.0.0.7'', 3) \<in> set (ip_frequency sample_features)"
    by (simp_all add: sample_features_def)
  from T m(1) have a: "map_option new_score (map_of (fst (get_reputation_updates initial_analyzer sample_features)) ''10.0.0.50'') = Some 0"
    by (auto simp: initial_analyzer_def)
  from T m(2) have b: "map_option new_score (map_of (fst (get_reputation_updates initial_analyzer sample_features)) ''10.0.0.7'') = Some 44"
    by (auto simp: initial_analyzer_def)
  from T m(2) have c: "reputation_scores (snd (get_reputation_updates initial_analyzer sample_features)) ''10.0.0.7'' = Some 44"
    by (auto simp: initial_analyzer_def)
  show ?thesis
    apply (intro conjI)
        apply (rule e)
       apply (rule d)
      apply (rule a)
     apply (rule b)
    apply (rule c)
    done
qed

subsection \<open>Port prioritisation\<close>

lemma fold_append_if:
  "fold (\<lambda>x acc. if P x then acc @ [g x] else acc) xs acc = acc @ map g (filter P xs)"
  by (induction xs arbitrary: acc) auto

lemma fold_append_new:
  "distinct (map fst pf) \<Longrightarrow>
   fold (\<lambda>(port, count) acc. if Q count \<and> port \<notin> set acc then acc @ [port] else acc) pf acc
     = acc @ map fst (filter (\<lambda>pc. Q (snd pc) \<and> fst pc \<notin> set acc) pf)"
proof (induction pf arbitrary: acc)
  case Nil
  then show ?case by simp
next
  case (Cons x pf)
  obtain p c where x: "x = (p, c)" by (cases x)
  from Cons.prems x have notin: "p \<notin> fst ` set pf" and d: "distinct (map fst pf)" by auto
  have eq: "filter (\<lambda>pc. Q (snd pc) \<and> fst pc \<notin> set (acc @ [p])) pf
          = filter (\<lambda>pc. Q (snd pc) \<and> fst pc \<notin> set acc) pf"
  proof (rule filter_cong[OF refl])
    fix y assume "y \<in> set pf"
    with notin have "fst y \<noteq> p" by force
    then show "(Q (snd y) \<and> fst y \<notin> set (acc @ [p])) = (Q (snd y) \<and> fst y \<notin> set acc)" by simp
  qed
  let ?step = "\<lambda>(port, count) acc. if Q count \<and> port \<notin> set acc then acc @ [port] else acc"
  show ?case
  proof (cases "Q c \<and> p \<notin> set acc")
    case True
    then have "?step x acc = acc @ [p]" by (simp add: x)
    then have "fold ?step (x # pf) acc = fold ?step pf (acc @ [p])" by simp
    also have "\<dots> = (acc @ [p]) @ map fst (filter (\<lambda>pc. Q (snd pc) \<and> fst pc \<notin> set (acc @ [p])) pf)"
      by (rule Cons.IH[OF d])
    finally show ?thesis using True x eq by simp
  next
    case False
    then have "?step x acc = acc" unfolding x by (cases "Q c") simp_all
    then have "fold ?step (x # pf) acc = fold ?step pf acc" by simp
    also have "\<dots> = acc @ map fst (filter (\<lambda>pc. Q (snd pc) \<and> fst pc \<notin> set acc) pf)"
      by (rule Cons.IH[OF d])
    finally show ?thesis using False x by (cases "Q c") simp_all
  qed
qed

lemma port_priority_fold:
  assumes "distinct (map fst pf)"
  shows "fold (\<lambda>(port, count) acc. if 10 < count \<and> port \<notin> set acc then acc @ [port] else acc) pf
           (fold (\<lambda>port acc. if (case map_of pf port of Some c \<Rightarrow> (5::nat) < c | None \<Rightarrow> False)
                               then acc @ [port] else acc) crit [])
         = filter (\<lambda>p. \<exists>c. map_of pf p = Some c \<and> 5 < c) crit
           @ map fst (filter (\<lambda>pc. (10::nat) < snd pc
                                \<and> fst pc \<notin> set (filter (\<lambda>p. \<exists>c. map_of pf p = Some c \<and> 5 < c) crit)) pf)"
proof -
  define P where "P = (\<lambda>p. \<exists>c. map_of pf p = Some c \<and> 5 < c)"
  have Peq: "\<And>port. (case map_of pf port of Some c \<Rightarrow> 5 < c | None \<Rightarrow> False) = P port"
    by (auto simp: P_def split: option.splits)
  have 1: "fold (\<lambda>port acc. if (case map_of pf port of Some c \<Rightarrow> 5 < c | None \<Rightarrow> False)
                    then acc @ [port] else acc) crit [] = filter P crit"
    unfolding Peq using fold_append_if[of P "\<lambda>x. x" crit "[]"] by simp
  show ?thesis unfolding 1 unfolding P_def[symmetric]
    by (rule fold_append_new[OF assms, of "\<lambda>c. 10 < c"])
qed

text \<open>
  Claim C5, as amended. On a port-frequency table, the helper of the analyzer takes, in the
  order of its list \<open>22, 21, 80, 443, 3389, 25, 53, 135, 139, 445\<close>, the ports of that list
  with a frequency above 5, then appends, in table order, every port with a frequency above
  10 that is not yet present, and keeps the first 10 entries. The copy in the adaptation
  engine does the same from the shorter list \<open>22, 21, 80, 443, 3389\<close>.
\<close>

theorem port_prioritisation:
  assumes "distinct (map fst (port_frequency f))"
  shows "identify_high_value_ports f =
           (let allow = filter (\<lambda>p. \<exists>c. map_of (port_frequency f) p = Some c \<and> 5 < c)
                          [22, 21, 80, 443, 3389, 25, 53, 135, 139, 445]
            in take 10 (allow @ map fst (filter (\<lambda>pc. 10 < snd pc \<and> fst pc \<notin> set allow)
                                           (port_frequency f))))
       \<and> adaptation_identify_high_value_ports f =
           (let allow = filter (\<lambda>p. \<exists>c. map_of (port_frequency f) p = Some c \<and> 5 < c)
                          [22, 21, 80, 443, 3389]
            in take 10 (allow @ map fst (filter (\<lambda>pc. 10 < snd pc \<and> fst pc \<notin> set allow)
                                           (port_frequency f))))"
  unfolding identify_high_value_ports_def adaptation_identify_high_value_ports_def Let_def
    port_priority_fold[OF assms] by (rule conjI; rule refl)

theorem port_prioritisation_witness:
  "distinct (map fst (port_frequency sample_features))
   \<and> identify_high_value_ports sample_features = [22, 25, 8080, 9000]
   \<and> adaptation_identify_high_value_ports sample_features = [22, 8080, 9000]"
proof -
  have d: "distinct (map fst (port_frequency sample_features))"
    by (simp add: sample_features_def)
  show ?thesis using d port_prioritisation[OF d]
    by (simp add: sample_features_def)
qed

text \<open>
  The claim as stated gives both helpers the list of ten ports. Port 25 with six hits is in
  that list and above the threshold of 5; the analyzer's helper returns it, the adaptation
  engine's copy does not.
\<close>

theorem adaptation_ports_counterexample:
  "map_of (port_frequency smtp_features) 25 = Some 6
   \<and> 25 \<notin> set (adaptation_identify_high_value_ports smtp_features)
   \<and> 25 \<in> set (identify_high_value_ports smtp_features)"
  by (simp add: smtp_features_def adaptation_identify_high_value_ports_def
        identify_high_value_ports_def)

subsection \<open>Attack classification on the feature set\<close>

lemma update_fresh: "k \<notin> fst ` set al \<Longrightarrow> AList.update k v al = al @ [(k, v)]"
  by (induction al) auto




lemma distinct_filter_keys: "distinct (map fst l) \<Longrightarrow> distinct (map fst (filter P l))"
  by (simp add: distinct_map_filter)


lemma brute_force_fields [simp]:
  "a_type (brute_force_attack ip d) = ''brute_force''"
  "a_source_ip (brute_force_attack ip d) = ip"
  "a_confidence (brute_force_attack ip d) = min (9 / 10) (of_nat (frequency d) / 100)"
  by (simp_all add: brute_force_attack_def)

lemma port_scan_fields [simp]:
  "a_type (port_scan_attack ip d) = ''port_scan''"
  "a_source_ip (port_scan_attack ip d) = ip"
  "a_confidence (port_scan_attack ip d) = min (95 / 100) (of_nat (ports_targeted d) / 20)"
  by (simp_all add: port_scan_attack_def)







subsection \<open>Recommendations\<close>







lemma recommendation_fields [simp]:
  "rc_type (adapt_recommendation ps) = ''adapt''"
  "rc_action (adapt_recommendation ps) = ''spawn_honeypots''"
  "rc_priority (adapt_recommendation ps) = ''high''"
  "rc_parameters (adapt_recommendation ps) = SpawnParameters ps [''ssh'', ''web'', ''ftp''] (min 5 (length ps))"
  "rc_type (block_recommendation as) = ''security_policy''"
  "rc_action (block_recommendation as) = ''block_ips''"
  "rc_priority (block_recommendation as) = ''critical''"
  "rc_parameters (block_recommendation as) = BlockParameters as ''permanent'' ''all_services''"
  "rc_type (monitor_recommendation f) = ''monitoring''"
  "rc_action (monitor_recommendation f) = ''enhance_monitoring''"
  "rc_priority (monitor_recommendation f) = ''medium''"
  "rc_parameters (monitor_recommendation f) = MonitorParameters (take 5 (map fst (port_frequency f))) 10"
  by (simp_all add: adapt_recommendation_def block_recommendation_def monitor_recommendation_def)




subsection \<open>Threats\<close>

lemma update_keyed_present:
  "distinct ks \<Longrightarrow> k \<in> set ks \<Longrightarrow>
   AList.update k v (map (\<lambda>j. (j, g j)) ks) = map (\<lambda>j. (j, if j = k then v else g j)) ks"
proof (induction ks)
  case Nil
  then show ?case by simp
next
  case (Cons x ks)
  show ?case
  proof (cases "x = k")
    case True
    with Cons.prems have "k \<notin> set ks" by simp
    then have "map (\<lambda>j. (j, if j = k then v else g j)) ks = map (\<lambda>j. (j, g j)) ks"
      by (intro map_cong) auto
    with True show ?thesis by simp
  next
    case False
    with Cons show ?thesis by simp
  qed
qed

lemma update_last:
  "k \<notin> fst ` set al \<Longrightarrow> AList.update k v (al @ [(k, w)]) = al @ [(k, v)]"
  by (induction al) auto

lemma map_of_last:
  "k \<notin> fst ` set al \<Longrightarrow> map_of (al @ [(k, w)]) k = Some w"
  by (induction al) auto

lemma map_of_keyed: "k \<in> set ks \<Longrightarrow> map_of (map (\<lambda>j. (j, g j)) ks) k = Some (g k)"
  by (induction ks) auto

lemma fold_group_attack:
  "fold group_attack attacks [] =
     map (\<lambda>ip. (ip, filter (\<lambda>a. a_source_ip a = ip) attacks)) (unique (map a_source_ip attacks))"
proof (induction attacks rule: rev_induct)
  case Nil
  then show ?case by (simp add: unique_def)
next
  case (snoc a attacks)
  let ?ks = "unique (map a_source_ip attacks)"
  let ?g = "\<lambda>ip. filter (\<lambda>a. a_source_ip a = ip) attacks"
  let ?G = "map (\<lambda>ip. (ip, ?g ip)) ?ks"
  let ?ip = "a_source_ip a"
  have mk: "map fst ?G = ?ks" by (simp add: comp_def)
  have keys: "fst ` set ?G = a_source_ip ` set attacks"
    by (force simp: image_iff)
  have step: "fold group_attack (attacks @ [a]) [] = group_attack a ?G"
    using snoc.IH by simp
  show ?case
  proof (cases "?ip \<in> set (map a_source_ip attacks)")
    case True
    then have mem: "?ip \<in> set ?ks" by simp
    have "group_attack a ?G = AList.update ?ip (?g ?ip @ [a]) ?G"
    proof -
      have "?ip \<in> set (map fst ?G)" unfolding mk by (rule mem)
      then show ?thesis
        using map_of_keyed[OF mem, of ?g] unfolding group_attack_def Let_def by simp
    qed
    also have "\<dots> = map (\<lambda>j. (j, if j = ?ip then ?g ?ip @ [a] else ?g j)) ?ks"
      by (rule update_keyed_present[OF distinct_unique mem])
    also have "\<dots> = map (\<lambda>ip. (ip, filter (\<lambda>b. a_source_ip b = ip) (attacks @ [a]))) ?ks"
      by (intro map_cong) auto
    finally show ?thesis unfolding step using True by (simp add: unique_snoc)
  next
    case False
    then have nmem: "?ip \<notin> fst ` set ?G" unfolding keys by simp
    have fresh: "AList.update ?ip [] ?G = ?G @ [(?ip, [])]" by (rule update_fresh[OF nmem])
    have nmem2: "?ip \<notin> fst ` set ?G" by (rule nmem)
    have look: "map_of (?G @ [(?ip, [])]) ?ip = Some []"
      by (rule map_of_last[OF nmem])
    have upd: "AList.update ?ip ([] @ [a]) (?G @ [(?ip, [])]) = ?G @ [(?ip, [a])]"
      using update_last[OF nmem, of "[a]" "[]"] by simp
    have "group_attack a ?G = ?G @ [(?ip, [a])]"
    proof -
      have "?ip \<notin> set (map fst ?G)" unfolding mk using False by simp
      then show ?thesis
        using fresh look upd unfolding group_attack_def Let_def by simp
    qed
    also have "\<dots> = map (\<lambda>ip. (ip, filter (\<lambda>b. a_source_ip b = ip) (attacks @ [a]))) (?ks @ [?ip])"
    proof -
      have nf: "\<forall>b \<in> set attacks. a_source_ip b \<noteq> ?ip"
      proof
        fix b assume "b \<in> set attacks"
        then have "a_source_ip b \<in> a_source_ip ` set attacks" by (rule imageI)
        with False show "a_source_ip b \<noteq> ?ip" by auto
      qed
      have "filter (\<lambda>b. a_source_ip b = ?ip) attacks = []"
        using nf by (simp add: filter_empty_conv)
      moreover have "map (\<lambda>ip. (ip, filter (\<lambda>b. a_source_ip b = ip) (attacks @ [a]))) ?ks = ?G"
      proof (rule map_cong[OF refl])
        fix x assume "x \<in> set ?ks"
        then obtain b where b: "b \<in> set attacks" "x = a_source_ip b" by auto
        from nf b(1) have "a_source_ip b \<noteq> ?ip" by (rule bspec)
        with b(2) have "x \<noteq> ?ip" by simp
        then show "(x, filter (\<lambda>b. a_source_ip b = x) (attacks @ [a])) = (x, ?g x)" by simp
      qed
      ultimately show ?thesis by simp
    qed
    finally show ?thesis unfolding step using False by (simp add: unique_snoc)
  qed
qed

lemma analyze_threats_closed:
  "analyze_threats attacks anomalies =
     map immediate_threat (filter (\<lambda>a. a_severity a = ''high'') attacks)
     @ map (\<lambda>ip. persistent_threat ip (filter (\<lambda>a. a_source_ip a = ip) attacks))
         (filter (\<lambda>ip. 1 < length (filter (\<lambda>a. a_source_ip a = ip) attacks))
            (unique (map a_source_ip attacks)))"
proof -
  have a: "\<And>xs. fold (\<lambda>attack acc. acc @ [immediate_threat attack]) xs [] = map immediate_threat xs"
    using fold_append_if[of "\<lambda>x. True" immediate_threat _ "[]"] by simp
  have b: "\<And>G acc. fold (\<lambda>(ip, ip_attack_list) acc.
                 if 1 < length ip_attack_list then acc @ [persistent_threat ip ip_attack_list]
                 else acc) G acc
            = acc @ map (\<lambda>x. persistent_threat (fst x) (snd x)) (filter (\<lambda>x. 1 < length (snd x)) G)"
    using fold_append_if[of "\<lambda>x. 1 < length (snd x)" "\<lambda>x. persistent_threat (fst x) (snd x)"]
    by (simp add: case_prod_unfold)
  show ?thesis
    unfolding analyze_threats_def Let_def a b fold_group_attack
    by (simp add: filter_map comp_def)
qed

lemma threat_fields [simp]:
  "t_severity (immediate_threat a) = ''critical''"
  "t_type (immediate_threat a) = ''immediate_threat''"
  "t_source (immediate_threat a) = a_source_ip a"
  "t_severity (persistent_threat ip l) = ''high''"
  "t_type (persistent_threat ip l) = ''persistent_threat''"
  "t_source (persistent_threat ip l) = ip"
  "t_attack_types (persistent_threat ip l) = Some (map a_type l)"
  by (simp_all add: immediate_threat_def persistent_threat_def)

lemma several_kinds_several_attacks:
  assumes "1 < card (a_type ` {a \<in> set attacks. a_source_ip a = ip})"
  shows "1 < length (filter (\<lambda>a. a_source_ip a = ip) attacks)"
proof -
  have "card (a_type ` {a \<in> set attacks. a_source_ip a = ip})
          \<le> card {a \<in> set attacks. a_source_ip a = ip}"
    by (rule card_image_le) simp
  also have "{a \<in> set attacks. a_source_ip a = ip} = set (filter (\<lambda>a. a_source_ip a = ip) attacks)"
    by auto
  also have "card (set (filter (\<lambda>a. a_source_ip a = ip) attacks))
          \<le> length (filter (\<lambda>a. a_source_ip a = ip) attacks)"
    by (rule card_length)
  finally show ?thesis using assms by simp
qed

text \<open>
  Claim C4. For every list of classified attacks (the anomalies are not read), the threats
  are, first, one immediate threat of severity \<open>critical\<close> for every attack of severity
  \<open>high\<close>, in the order of the attacks, and then one persistent threat of severity \<open>high\<close>
  for every source that has more than one attack, in the order in which the sources first
  occur, with the types of its attacks. In particular every attack of severity \<open>high\<close> has
  its immediate threat, and every source with more than one distinct attack type has its
  persistent threat.
\<close>

theorem analyze_threats_synthesis:
  "analyze_threats attacks anomalies =
     map immediate_threat (filter (\<lambda>a. a_severity a = ''high'') attacks)
     @ map (\<lambda>ip. persistent_threat ip (filter (\<lambda>a. a_source_ip a = ip) attacks))
         (filter (\<lambda>ip. 1 < length (filter (\<lambda>a. a_source_ip a = ip) attacks))
            (unique (map a_source_ip attacks)))
   \<and> (\<forall>a. t_severity (immediate_threat a) = ''critical''
          \<and> t_type (immediate_threat a) = ''immediate_threat''
          \<and> t_source (immediate_threat a) = a_source_ip a)
   \<and> (\<forall>ip l. t_severity (persistent_threat ip l) = ''high''
          \<and> t_type (persistent_threat ip l) = ''persistent_threat''
          \<and> t_source (persistent_threat ip l) = ip
          \<and> t_attack_types (persistent_threat ip l) = Some (map a_type l))
   \<and> (\<forall>a \<in> set attacks. a_severity a = ''high'' \<longrightarrow>
          immediate_threat a \<in> set (analyze_threats attacks anomalies))
   \<and> (\<forall>ip. 1 < card (a_type ` {a \<in> set attacks. a_source_ip a = ip}) \<longrightarrow>
          persistent_threat ip (filter (\<lambda>a. a_source_ip a = ip) attacks)
            \<in> set (analyze_threats attacks anomalies))"
proof -
  note C = analyze_threats_closed[of attacks anomalies]
  have 4: "\<forall>a \<in> set attacks. a_severity a = ''high'' \<longrightarrow>
          immediate_threat a \<in> set (analyze_threats attacks anomalies)"
    unfolding C by auto
  have 5: "\<forall>ip. 1 < card (a_type ` {a \<in> set attacks. a_source_ip a = ip}) \<longrightarrow>
          persistent_threat ip (filter (\<lambda>a. a_source_ip a = ip) attacks)
            \<in> set (analyze_threats attacks anomalies)"
  proof (intro allI impI)
    fix ip assume h: "1 < card (a_type ` {a \<in> set attacks. a_source_ip a = ip})"
    from several_kinds_several_attacks[OF h]
    have l: "1 < length (filter (\<lambda>a. a_source_ip a = ip) attacks)" .
    then have "filter (\<lambda>a. a_source_ip a = ip) attacks \<noteq> []" by auto
    then obtain b where "b \<in> set attacks" "a_source_ip b = ip"
      by (auto simp: filter_empty_conv)
    then have "ip \<in> set (unique (map a_source_ip attacks))" by auto
    with l show "persistent_threat ip (filter (\<lambda>a. a_source_ip a = ip) attacks)
            \<in> set (analyze_threats attacks anomalies)"
      unfolding C by auto
  qed
  show ?thesis
    apply (intro conjI)
        apply (rule C)
       apply simp
      apply simp
     apply (rule 4)
    apply (rule 5)
    done
qed

theorem analyze_threats_synthesis_witness:
  "map t_type (analyze_threats sample_attacks []) = [''immediate_threat'', ''persistent_threat'']
   \<and> map t_severity (analyze_threats sample_attacks []) = [''critical'', ''high'']
   \<and> map t_source (analyze_threats sample_attacks []) = [''10.0.0.8'', ''10.0.0.8'']
   \<and> map t_attack_types (analyze_threats sample_attacks [])
        = [None, Some [''brute_force'', ''port_scan'']]"
proof -
  have C: "analyze_threats sample_attacks [] =
     map immediate_threat (filter (\<lambda>a. a_severity a = ''high'') sample_attacks)
     @ map (\<lambda>ip. persistent_threat ip (filter (\<lambda>a. a_source_ip a = ip) sample_attacks))
         (filter (\<lambda>ip. 1 < length (filter (\<lambda>a. a_source_ip a = ip) sample_attacks))
            (unique (map a_source_ip sample_attacks)))"
    using analyze_threats_synthesis[of sample_attacks "[]"] by blast
  show ?thesis
    unfolding C
    by (simp add: sample_attacks_def brute_force_attack_def port_scan_attack_def unique_def
          immediate_threat_def persistent_threat_def)
qed

section \<open>Properties of the classifier\<close>

lemma login_event_classified:
  "classify_attack (initial_classifier True) fixed_ml login_event
     = ([RuleStage, StatisticalStage], fixed_ml login_event)"
  by code_simp

lemma login_event_rule_confidence:
  "c_confidence (rule_based_classification (initial_classifier True) login_event) = 13 / 20"
  by code_simp

text \<open>
  Claim C3. \<open>classify_attack\<close> runs the statistical stage only when the confidence of the
  rule stage is at most 0.7 (and then exactly when the classifier is trained); when both
  stages have run, the statistical result is returned if its confidence is strictly higher,
  and the rule result otherwise, so also on a tie.
\<close>

theorem classify_attack_stages:
  assumes "classify_attack clf ml ev = (stages, res)"
  shows "(StatisticalStage \<in> set stages \<longleftrightarrow>
            c_confidence (rule_based_classification clf ev) \<le> 7 / 10 \<and> is_trained clf)
       \<and> (StatisticalStage \<in> set stages \<longrightarrow>
            res = (if c_confidence (ml ev) > c_confidence (rule_based_classification clf ev)
                   then ml ev else rule_based_classification clf ev))
       \<and> (StatisticalStage \<notin> set stages \<longrightarrow> res = rule_based_classification clf ev)"
proof -
  define r where "r = rule_based_classification clf ev"
  show ?thesis
    using assms unfolding classify_attack_def Let_def r_def[symmetric]
    by (cases "c_confidence r > 7 / 10"; cases "is_trained clf") auto
qed

theorem classify_attack_stages_witness:
  "classify_attack (initial_classifier True) fixed_ml login_event
     = ([RuleStage, StatisticalStage], fixed_ml login_event)
   \<and> c_confidence (rule_based_classification (initial_classifier True) login_event) \<le> 7 / 10
   \<and> is_trained (initial_classifier True)
   \<and> c_confidence (fixed_ml login_event)
        > c_confidence (rule_based_classification (initial_classifier True) login_event)"
  using classify_attack_stages [OF login_event_classified] login_event_classified
  by (simp add: login_event_rule_confidence fixed_ml_def)

subsection \<open>The rule stage\<close>

lemma port_boost_nonneg: "0 \<le> port_boost k p"
  by (simp add: port_boost_def)

lemma kind_confidence_nonneg: "0 \<le> kind_confidence msg port sig"
  using port_boost_nonneg[of "fst sig" port]
  by (auto simp: kind_confidence_def Let_def min_def)

lemma kind_confidence_le1: "kind_confidence msg port sig \<le> 1"
  by (simp add: kind_confidence_def Let_def)








end
